theory Spec2Isabelle
  imports Complex_Main
begin

section \<open>The orchestrator agent: routing and memory (src/agents/orchestrator\_agent.py)\<close>

text \<open>
  A shallow embedding of \<^verbatim>\<open>IntelligentRouter\<close> and \<^verbatim>\<open>MemoryManager\<close>.
  Conventions of the embedding:
  \<^item> Python numbers (\<^verbatim>\<open>int\<close> and \<^verbatim>\<open>float\<close> mixed freely by the source) are
    \<^typ>\<open>real\<close>: arithmetic is exact, rounding of IEEE doubles is not modelled.
  \<^item> Python strings are \<^typ>\<open>string\<close>; \<^verbatim>\<open>lower\<close> and \<^verbatim>\<open>split\<close> are modelled on
    ASCII text.
  \<^item> A dictionary whose iteration order the source relies on (\<^verbatim>\<open>model_info\<close>) is an
    association list in insertion order.
  \<^item> \<^verbatim>\<open>self\<close> is a record passed explicitly; a method that mutates it returns the new
    record.
\<close>

subsection \<open>Python string operations\<close>

text \<open>\<^verbatim>\<open>str.lower()\<close> on ASCII: the 26 capital letters are mapped, every other character is kept.\<close>

definition lower_char :: "char \<Rightarrow> char" where
  "lower_char c =
     (case map_of (zip ''ABCDEFGHIJKLMNOPQRSTUVWXYZ'' ''abcdefghijklmnopqrstuvwxyz'') c of
        None \<Rightarrow> c
      | Some d \<Rightarrow> d)"

definition py_lower :: "string \<Rightarrow> string" where
  "py_lower s = map lower_char s"

text \<open>
  The ASCII characters for which \<^verbatim>\<open>str.isspace()\<close> holds: tab, line feed, vertical tab,
  form feed, carriage return, the four separators 0x1C..0x1F and the blank.
\<close>

definition is_space :: "char \<Rightarrow> bool" where
  "is_space c =
     (c \<in> set [CHR 0x09, CHR 0x0A, CHR 0x0B, CHR 0x0C, CHR 0x0D,
                CHR 0x1C, CHR 0x1D, CHR 0x1E, CHR 0x1F, CHR 0x20])"

text \<open>
  \<^verbatim>\<open>str.split()\<close> with no argument: maximal runs of non-space characters, in order; no
  empty word is produced. The second argument is the word being read.
\<close>

fun split_from :: "string \<Rightarrow> string \<Rightarrow> string list" where
  "split_from [] w = (if w = [] then [] else [w])"
| "split_from (c # cs) w =
     (if is_space c then (if w = [] then split_from cs [] else w # split_from cs [])
      else split_from cs (w @ [c]))"

definition py_split :: "string \<Rightarrow> string list" where
  "py_split s = split_from s []"

text \<open>\<^verbatim>\<open>k in s\<close> on strings: \<open>k\<close> occurs in \<open>s\<close> as a contiguous substring.\<close>

fun starts_with :: "string \<Rightarrow> string \<Rightarrow> bool" where
  "starts_with [] s = True"
| "starts_with (k # ks) [] = False"
| "starts_with (k # ks) (c # cs) = (k = c \<and> starts_with ks cs)"

fun contains :: "string \<Rightarrow> string \<Rightarrow> bool" where
  "contains k [] = (k = [])"
| "contains k (c # cs) = (starts_with k (c # cs) \<or> contains k cs)"

text \<open>\<^verbatim>\<open>sep.join(parts)\<close>.\<close>

fun join :: "string \<Rightarrow> string list \<Rightarrow> string" where
  "join sep [] = []"
| "join sep [p] = p"
| "join sep (p # q # ps) = p @ sep @ join sep (q # ps)"

text \<open>\<^verbatim>\<open>d.get(k, default)\<close> on a dictionary.\<close>

definition dict_get :: "('k \<rightharpoonup> 'v) \<Rightarrow> 'k \<Rightarrow> 'v \<Rightarrow> 'v" where
  "dict_get d k dflt = (case d k of None \<Rightarrow> dflt | Some v \<Rightarrow> v)"

subsection \<open>IntelligentRouter\<close>

record RoutingDecision =
  model :: string
  reasoning :: string
  confidence :: real
  estimated_cost :: real
  estimated_latency :: real

text \<open>One value of the \<^verbatim>\<open>model_info\<close> dictionary.\<close>

record model_entry =
  cost_per_token :: real
  avg_latency :: real
  capabilities :: "string list"
  max_context :: nat

text \<open>
  The \<^verbatim>\<open>config\<close> dictionary read by \<^verbatim>\<open>IntelligentRouter.__init__\<close>: a key that is
  absent is \<open>None\<close>.
\<close>

record router_config =
  cfg_local_models :: "string list option"
  cfg_cloud_models :: "string list option"
  cfg_cost_threshold :: "real option"
  cfg_latency_threshold :: "real option"
  cfg_quality_threshold :: "real option"

record IntelligentRouter =
  local_models :: "string list"
  cloud_models :: "string list"
  cost_threshold :: real
  latency_threshold :: real
  quality_threshold :: real
  model_info :: "(string \<times> model_entry) list"

text \<open>The five entries \<^verbatim>\<open>__init__\<close> writes into \<^verbatim>\<open>self.model_info\<close>, in the order written.\<close>

definition builtin_model_info :: "(string \<times> model_entry) list" where
  "builtin_model_info =
     [(''llama3.1:8b'',
         \<lparr>cost_per_token = 0.0, avg_latency = 50,
          capabilities = [''general'', ''reasoning''], max_context = 128000\<rparr>),
      (''llama3.1:70b'',
         \<lparr>cost_per_token = 0.0, avg_latency = 200,
          capabilities = [''general'', ''reasoning'', ''complex''], max_context = 128000\<rparr>),
      (''codellama:13b'',
         \<lparr>cost_per_token = 0.0, avg_latency = 100,
          capabilities = [''code'', ''programming''], max_context = 16000\<rparr>),
      (''gpt-4o-mini'',
         \<lparr>cost_per_token = 0.00015, avg_latency = 800,
          capabilities = [''general'', ''reasoning'', ''complex'', ''multimodal''],
          max_context = 128000\<rparr>),
      (''gpt-4o'',
         \<lparr>cost_per_token = 0.005, avg_latency = 1200,
          capabilities = [''general'', ''reasoning'', ''complex'', ''multimodal'', ''advanced''],
          max_context = 128000\<rparr>)]"

definition IntelligentRouter_init :: "router_config \<Rightarrow> IntelligentRouter" where
  "IntelligentRouter_init config =
     \<lparr>local_models = (case cfg_local_models config of None \<Rightarrow> [''llama3.1:8b''] | Some l \<Rightarrow> l),
      cloud_models = (case cfg_cloud_models config of None \<Rightarrow> [''gpt-4o-mini''] | Some l \<Rightarrow> l),
      cost_threshold = (case cfg_cost_threshold config of None \<Rightarrow> 0.001 | Some t \<Rightarrow> t),
      latency_threshold = (case cfg_latency_threshold config of None \<Rightarrow> 2000 | Some t \<Rightarrow> t),
      quality_threshold = (case cfg_quality_threshold config of None \<Rightarrow> 0.8 | Some t \<Rightarrow> t),
      model_info = builtin_model_info\<rparr>"

text \<open>The dictionary \<^verbatim>\<open>analyze_query_complexity\<close> returns.\<close>

record analysis =
  general_complexity :: real
  code_requirement :: real
  multimodal_requirement :: real
  math_requirement :: real

definition reasoning_keywords :: "string list" where
  "reasoning_keywords =
     [''analyze'', ''compare'', ''evaluate'', ''explain why'', ''reasoning'', ''logic'']"

definition code_keywords :: "string list" where
  "code_keywords =
     [''code'', ''programming'', ''function'', ''algorithm'', ''debug'', ''implement'']"

definition multimodal_keywords :: "string list" where
  "multimodal_keywords = [''image'', ''picture'', ''visual'', ''diagram'', ''chart'']"

definition math_keywords :: "string list" where
  "math_keywords = [''calculate'', ''equation'', ''formula'', ''mathematics'', ''statistics'']"

text \<open>
  \<^verbatim>\<open>analyze_query_complexity(self, query, context=None)\<close>. The method reads nothing of
  \<^verbatim>\<open>self\<close>; \<^verbatim>\<open>any(keyword in query_lower for keyword in kws)\<close> is \<open>list_ex\<close>. The
  score is built up by the same sequence of assignments as in the source.
\<close>

definition analyze_query_complexity :: "string \<Rightarrow> string option \<Rightarrow> analysis" where
  "analyze_query_complexity query_text context_text =
     (let query_lower = py_lower query_text;
          complexity_score = 0.0;
          complexity_score =
            (if length query_text > 500 then complexity_score + 0.2 else complexity_score);
          complexity_score =
            (if list_ex (\<lambda>keyword. contains keyword query_lower) reasoning_keywords
             then complexity_score + 0.3 else complexity_score);
          code_score =
            (if list_ex (\<lambda>keyword. contains keyword query_lower) code_keywords
             then 0.5 else 0.0);
          multimodal_score =
            (if list_ex (\<lambda>keyword. contains keyword query_lower) multimodal_keywords
             then 0.8 else 0.0);
          math_score =
            (if list_ex (\<lambda>keyword. contains keyword query_lower) math_keywords
             then 0.4 else 0.0)
      in \<lparr>general_complexity = min complexity_score 1.0,
          code_requirement = code_score,
          multimodal_requirement = multimodal_score,
          math_requirement = math_score\<rparr>)"

text \<open>
  The analyzer as section 4.1 of the specification words it, for comparison with the
  definition above: each signal is given by one closed formula over the lower-cased
  query.
\<close>

definition has_keyword :: "string list \<Rightarrow> string \<Rightarrow> bool" where
  "has_keyword kws query_text = (\<exists>k \<in> set kws. contains k (py_lower query_text))"

definition analyze_spec :: "string \<Rightarrow> analysis" where
  "analyze_spec query_text =
     \<lparr>general_complexity =
        min 1.0 ((if length query_text > 500 then 0.2 else 0)
                 + (if has_keyword reasoning_keywords query_text then 0.3 else 0)),
      code_requirement = (if has_keyword code_keywords query_text then 0.5 else 0),
      multimodal_requirement = (if has_keyword multimodal_keywords query_text then 0.8 else 0),
      math_requirement = (if has_keyword math_keywords query_text then 0.4 else 0)\<rparr>"


text \<open>
  The scores of one catalog entry, as the body of the loop of \<^verbatim>\<open>route_query\<close> computes
  them (lines 146--167); \<open>model_score\<close> is the value of \<^verbatim>\<open>score\<close> after its three
  additions, starting from 0.
\<close>

definition cost_score :: "model_entry \<Rightarrow> real" where
  "cost_score info =
     (if cost_per_token info = 0 then 1.0 else max 0 (1 - cost_per_token info * 1000))"

definition speed_score :: "model_entry \<Rightarrow> real" where
  "speed_score info = max 0 (1 - avg_latency info / 2000)"

definition quality_score :: "analysis \<Rightarrow> model_entry \<Rightarrow> real" where
  "quality_score a info =
     (let quality = 0.5
      in if code_requirement a > 0.5 \<and> ''code'' \<in> set (capabilities info)
         then quality + 0.3
         else if multimodal_requirement a > 0.5 \<and> ''multimodal'' \<in> set (capabilities info)
         then quality + 0.4
         else if general_complexity a > 0.7 \<and> ''complex'' \<in> set (capabilities info)
         then quality + 0.3
         else quality)"

definition model_score :: "analysis \<Rightarrow> model_entry \<Rightarrow> real \<Rightarrow> real \<Rightarrow> real \<Rightarrow> real" where
  "model_score a info cost_weight speed_weight quality_weight =
     (let score = 0;
          score = score + cost_score info * cost_weight;
          score = score + speed_score info * speed_weight;
          score = score + quality_score a info * quality_weight
      in score)"

text \<open>
  The loop \<^verbatim>\<open>for model, info in self.model_info.items()\<close>. Its state is
  (\<^verbatim>\<open>best_model\<close>, \<^verbatim>\<open>best_score\<close>, \<^verbatim>\<open>reasoning_parts\<close>), with \<open>None\<close> for Python's
  \<^verbatim>\<open>None\<close>. The parameter \<open>fmt\<close> is Python's formatting of a number with
  \<^verbatim>\<open>:.2f\<close>, a builtin that is not code of the repository.
\<close>

fun score_models ::
  "(real \<Rightarrow> string) \<Rightarrow> IntelligentRouter \<Rightarrow> analysis \<Rightarrow> real \<Rightarrow> real \<Rightarrow> real \<Rightarrow>
   (string \<times> model_entry) list \<Rightarrow> string option \<times> real \<times> string list \<Rightarrow>
   string option \<times> real \<times> string list" where
  "score_models fmt r a cw sw qw [] st = st"
| "score_models fmt r a cw sw qw ((m, info) # rest) (best_model, best_score, reasoning_parts) =
     (if m \<in> set (local_models r) \<or> m \<in> set (cloud_models r) then
        (let score = model_score a info cw sw qw
         in if score > best_score then
              score_models fmt r a cw sw qw rest
                (Some m, score,
                 [''Cost score: '' @ fmt (cost_score info),
                  ''Speed score: '' @ fmt (speed_score info),
                  ''Quality score: '' @ fmt (quality_score a info),
                  ''Total score: '' @ fmt score])
            else score_models fmt r a cw sw qw rest (best_model, best_score, reasoning_parts))
      else score_models fmt r a cw sw qw rest (best_model, best_score, reasoning_parts))"

text \<open>Python's \<^verbatim>\<open>not best_model\<close>: true for \<^verbatim>\<open>None\<close> and for the empty string.\<close>

definition not_model :: "string option \<Rightarrow> bool" where
  "not_model best_model = (case best_model of None \<Rightarrow> True | Some m \<Rightarrow> m = [])"

text \<open>
  \<^verbatim>\<open>route_query(self, query, context=None, user_preferences=None)\<close>.
  \<^verbatim>\<open>user_preferences or {}\<close> turns \<^verbatim>\<open>None\<close> into the empty dictionary;
  \<^verbatim>\<open>self.model_info.get(best_model, {})\<close> is \<open>map_of\<close>, and the two \<^verbatim>\<open>.get\<close> calls on
  its result fall back to 0 and 1000 when the model has no entry.
\<close>

definition route_query ::
  "(real \<Rightarrow> string) \<Rightarrow> IntelligentRouter \<Rightarrow> string \<Rightarrow> string option \<Rightarrow>
   (string \<rightharpoonup> real) option \<Rightarrow> RoutingDecision" where
  "route_query fmt r query_text context_text user_preferences =
     (let a = analyze_query_complexity query_text context_text;
          user_prefs = (case user_preferences of None \<Rightarrow> Map.empty | Some p \<Rightarrow> p);
          cost_weight = dict_get user_prefs ''cost_priority'' 0.7;
          speed_weight = dict_get user_prefs ''speed_priority'' 0.2;
          quality_weight = dict_get user_prefs ''quality_priority'' 0.1;
          (best_model, best_score, reasoning_parts) =
             score_models fmt r a cost_weight speed_weight quality_weight (model_info r)
               (None, - 1, []);
          (best_model, reasoning_parts) =
             (if not_model best_model then
                (if local_models r \<noteq> [] then hd (local_models r) else ''gpt-4o-mini'',
                 [''Fallback to default model''])
              else (the best_model, reasoning_parts));
          info = map_of (model_info r) best_model
      in \<lparr>model = best_model,
          reasoning = join ''; '' reasoning_parts,
          confidence = best_score,
          estimated_cost =
            (case info of None \<Rightarrow> 0 | Some i \<Rightarrow> cost_per_token i)
              * real (length (py_split query_text)),
          estimated_latency = (case info of None \<Rightarrow> 1000 | Some i \<Rightarrow> avg_latency i)\<rparr>)"

subsection \<open>MemoryManager\<close>

text \<open>
  The dictionary \<^verbatim>\<open>add_interaction\<close> serialises. \<^verbatim>\<open>metadata.get('timestamp')\<close> and
  \<^verbatim>\<open>metadata.get('model')\<close> may be \<^verbatim>\<open>None\<close>.
\<close>

record interaction =
  query :: string
  response :: string
  timestamp :: "real option"
  model_used :: "string option"
  cost :: real
  latency :: real

text \<open>
  The dictionary \<^verbatim>\<open>_create_summary\<close> serialises. \<open>period\<close> is the number \<open>n\<close> of the
  text \<^verbatim>\<open>"{n} interactions"\<close>; the constant entries \<^verbatim>\<open>type\<close> and \<^verbatim>\<open>compressed_at\<close>
  are left out.
\<close>

record summary =
  period :: nat
  total_cost :: real
  main_topics :: "string list"

text \<open>
  The content of a message is JSON text. It is modelled by what \<^verbatim>\<open>json.loads\<close> makes of
  it: the dictionary of an interaction (as \<^verbatim>\<open>json.dumps(interaction)\<close> wrote it), the
  dictionary of a summary, or text on which the \<^verbatim>\<open>try\<close> block raises before it has any
  effect (\<open>Malformed\<close>).
\<close>

datatype content = Interaction interaction | Summary summary | Malformed

record msg =
  content :: content
  role :: string

record metadata =
  md_timestamp :: "real option"
  md_model :: "string option"
  md_cost :: "real option"
  md_latency :: "real option"

text \<open>
  \<^verbatim>\<open>self.memory_bank\<close> is the list of the bank's messages, oldest first. The two
  thresholds are Python integers read from the configuration, which does not restrict them.
\<close>

record MemoryManager =
  memory_bank :: "msg list"
  compression_threshold :: int
  max_memory_size :: int

record memory_config =
  cfg_compression_threshold :: "int option"
  cfg_max_memory_size :: "int option"

definition MemoryManager_init :: "memory_config \<Rightarrow> MemoryManager" where
  "MemoryManager_init config =
     \<lparr>memory_bank = [],
      compression_threshold =
        (case cfg_compression_threshold config of None \<Rightarrow> 10 | Some t \<Rightarrow> t),
      max_memory_size = (case cfg_max_memory_size config of None \<Rightarrow> 100 | Some t \<Rightarrow> t)\<rparr>"

text \<open>
  Python slices \<^verbatim>\<open>xs[i:]\<close> and \<^verbatim>\<open>xs[:i]\<close>: a negative index counts from the end, and
  every index is clamped to the list. Note \<^verbatim>\<open>xs[-0:]\<close> is \<^verbatim>\<open>xs[0:]\<close>, the whole list.
\<close>

definition slice_from :: "'a list \<Rightarrow> int \<Rightarrow> 'a list" where
  "slice_from xs i = (if i < 0 then drop (nat (int (length xs) + i)) xs else drop (nat i) xs)"

definition slice_to :: "'a list \<Rightarrow> int \<Rightarrow> 'a list" where
  "slice_to xs i = (if i < 0 then take (nat (int (length xs) + i)) xs else take (nat i) xs)"

text \<open>
  A Python \<^verbatim>\<open>set\<close> of strings is kept as the list of its elements in the order they were
  first added; \<^verbatim>\<open>topics.update(words)\<close> adds the new ones.
\<close>

fun set_update :: "string list \<Rightarrow> string list \<Rightarrow> string list" where
  "set_update topics [] = topics"
| "set_update topics (w # ws) =
     (if w \<in> set topics then set_update topics ws else set_update (topics @ [w]) ws)"

text \<open>
  The loop of \<^verbatim>\<open>_create_summary\<close> over (\<^verbatim>\<open>topics\<close>, \<^verbatim>\<open>total_cost\<close>, here
  \<open>cost_total\<close>). A summary
  message has neither a \<^verbatim>\<open>query\<close> nor a \<^verbatim>\<open>cost\<close> key, so the two \<^verbatim>\<open>.get\<close> calls
  give the empty string and 0; a message that does not decode is skipped by
  \<^verbatim>\<open>except: continue\<close>.
\<close>

fun summary_loop :: "msg list \<Rightarrow> string list \<times> real \<Rightarrow> string list \<times> real" where
  "summary_loop [] st = st"
| "summary_loop (m # ms) (topics, cost_total) =
     (case content m of
        Malformed \<Rightarrow> summary_loop ms (topics, cost_total)
      | Interaction d \<Rightarrow>
          (let query_words = py_split (py_lower (query d))
           in summary_loop ms
                (set_update topics (filter (\<lambda>word. length word > 4) query_words),
                 cost_total + cost d))
      | Summary s \<Rightarrow>
          (let query_words = py_split (py_lower [])
           in summary_loop ms
                (set_update topics (filter (\<lambda>word. length word > 4) query_words),
                 cost_total + 0)))"

text \<open>
  \<^verbatim>\<open>_create_summary(self, memories)\<close>. \<^verbatim>\<open>list(topics)\<close> lists a set, whose iteration
  order Python leaves to the hash table (the hashes of strings differ from one run of the
  interpreter to the next): \<open>set_iter\<close> stands for that order, a rearrangement of the
  elements (see \<open>valid_set_iter\<close>).
\<close>

definition create_summary :: "(string list \<Rightarrow> string list) \<Rightarrow> msg list \<Rightarrow> summary" where
  "create_summary set_iter memories =
     (let total_interactions = length memories;
          (topics, cost_total) = summary_loop memories ([], 0)
      in \<lparr>period = total_interactions,
          total_cost = cost_total,
          main_topics = take 10 (set_iter topics)\<rparr>)"

definition valid_set_iter :: "(string list \<Rightarrow> string list) \<Rightarrow> bool" where
  "valid_set_iter set_iter =
     (\<forall>xs. distinct xs \<longrightarrow> distinct (set_iter xs) \<and> set (set_iter xs) = set xs)"

text \<open>
  \<^verbatim>\<open>_compress_memory(self)\<close>: the bank is rebuilt as the summary message followed by
  \<^verbatim>\<open>recent_memories\<close>.
\<close>

definition compress_memory :: "(string list \<Rightarrow> string list) \<Rightarrow> MemoryManager \<Rightarrow> MemoryManager" where
  "compress_memory set_iter mm =
     (let memory = memory_bank mm
      in if int (length memory) > compression_threshold mm then
           (let recent_memories = slice_from memory (- compression_threshold mm);
                old_memories = slice_to memory (- compression_threshold mm);
                summary = create_summary set_iter old_memories
            in mm\<lparr>memory_bank :=
                    \<lparr>content = Summary summary, role = ''summary''\<rparr> # recent_memories\<rparr>)
         else mm)"

text \<open>\<^verbatim>\<open>add_interaction(self, query, response, metadata)\<close>.\<close>

definition add_interaction ::
  "(string list \<Rightarrow> string list) \<Rightarrow> MemoryManager \<Rightarrow> string \<Rightarrow> string \<Rightarrow> metadata \<Rightarrow> MemoryManager" where
  "add_interaction set_iter mm query_text response_text md =
     (let interaction =
            \<lparr>query = query_text,
             response = response_text,
             timestamp = md_timestamp md,
             model_used = md_model md,
             cost = (case md_cost md of None \<Rightarrow> 0 | Some c \<Rightarrow> c),
             latency = (case md_latency md of None \<Rightarrow> 0 | Some l \<Rightarrow> l)\<rparr>;
          mm = mm\<lparr>memory_bank :=
                    memory_bank mm @ [\<lparr>content = Interaction interaction, role = ''memory''\<rparr>]\<rparr>
      in if int (length (memory_bank mm)) > max_memory_size mm
         then compress_memory set_iter mm else mm)"

text \<open>
  \<^verbatim>\<open>len(query_words.intersection(msg_words))\<close>: the number of distinct words of the first
  list that occur in the second.
\<close>

definition overlap :: "string list \<Rightarrow> string list \<Rightarrow> nat" where
  "overlap query_words msg_words =
     length (filter (\<lambda>w. w \<in> set msg_words) (remdups query_words))"

text \<open>
  The loop of \<^verbatim>\<open>retrieve_relevant_context\<close> over the reversed bank, with
  \<^verbatim>\<open>relevant_items\<close> as its state. \<^verbatim>\<open>break\<close> returns the items; an exception
  (\<open>Malformed\<close>) goes on with the next message without reaching the test of the cap.
\<close>

fun retrieve_loop :: "string list \<Rightarrow> int \<Rightarrow> msg list \<Rightarrow> content list \<Rightarrow> content list" where
  "retrieve_loop query_words max_items [] relevant_items = relevant_items"
| "retrieve_loop query_words max_items (m # ms) relevant_items =
     (if role m = ''summary'' then
        (let relevant_items = relevant_items @ [content m]
         in if int (length relevant_items) \<ge> max_items then relevant_items
            else retrieve_loop query_words max_items ms relevant_items)
      else
        (case content m of
           Malformed \<Rightarrow> retrieve_loop query_words max_items ms relevant_items
         | Interaction d \<Rightarrow>
             (let msg_words = py_split (py_lower (query d));
                  relevant_items =
                    (if overlap query_words msg_words > 0
                     then relevant_items @ [content m] else relevant_items)
              in if int (length relevant_items) \<ge> max_items then relevant_items
                 else retrieve_loop query_words max_items ms relevant_items)
         | Summary s \<Rightarrow>
             (let msg_words = py_split (py_lower []);
                  relevant_items =
                    (if overlap query_words msg_words > 0
                     then relevant_items @ [content m] else relevant_items)
              in if int (length relevant_items) \<ge> max_items then relevant_items
                 else retrieve_loop query_words max_items ms relevant_items)))"

text \<open>
  \<^verbatim>\<open>retrieve_relevant_context(self, query, max_items=5)\<close>. The value is the list
  \<^verbatim>\<open>relevant_items\<close>, whose elements the source joins with a newline: an entry of the
  returned text is an element of this list.
\<close>

definition retrieve_relevant_context :: "MemoryManager \<Rightarrow> string \<Rightarrow> int \<Rightarrow> content list" where
  "retrieve_relevant_context mm query_text max_items =
     retrieve_loop (py_split (py_lower query_text)) max_items (rev (memory_bank mm)) []"


subsection \<open>Notions used to state the properties\<close>

text \<open>The model the fallback branch of \<^verbatim>\<open>route_query\<close> picks (the expression of line 180).\<close>

definition fallback_model :: "IntelligentRouter \<Rightarrow> string" where
  "fallback_model r = (if local_models r \<noteq> [] then hd (local_models r) else ''gpt-4o-mini'')"

text \<open>
  A stored record matches a query when the two token sets, lower-cased and split at
  white space, intersect. A message that is not a record matches nothing.
\<close>

definition shares_token :: "string \<Rightarrow> msg \<Rightarrow> bool" where
  "shares_token query_text m =
     (case content m of
        Interaction d \<Rightarrow>
          set (py_split (py_lower query_text)) \<inter> set (py_split (py_lower (query d))) \<noteq> {}
      | Summary s \<Rightarrow> False
      | Malformed \<Rightarrow> False)"

text \<open>The messages the retrieval scan collects: every summary, and every matching record.\<close>

definition selected :: "string \<Rightarrow> msg \<Rightarrow> bool" where
  "selected query_text m = (role m = ''summary'' \<or> shares_token query_text m)"

text \<open>
  The cost a folded message adds to a summary: the \<^verbatim>\<open>cost\<close> of a record, and nothing
  for a message that has no \<^verbatim>\<open>cost\<close> key (an earlier summary) or does not decode.
\<close>

definition msg_cost :: "msg \<Rightarrow> real" where
  "msg_cost m = (case content m of Interaction d \<Rightarrow> cost d | Summary s \<Rightarrow> 0 | Malformed \<Rightarrow> 0)"

text \<open>The tokens of a folded message: its lower-cased query split at white space.\<close>

definition msg_tokens :: "msg \<Rightarrow> string list" where
  "msg_tokens m =
     (case content m of
        Interaction d \<Rightarrow> py_split (py_lower (query d))
      | Summary s \<Rightarrow> []
      | Malformed \<Rightarrow> [])"

text \<open>
  The topics as section 4.3 of the specification words them: the tokens longer than four
  characters of the folded queries, each once, in the order of first appearance, at most
  ten of them.
\<close>

fun first_seen :: "'a list \<Rightarrow> 'a list" where
  "first_seen [] = []"
| "first_seen (x # xs) = x # filter (\<lambda>y. y \<noteq> x) (first_seen xs)"

definition topics_by_first_appearance :: "msg list \<Rightarrow> string list" where
  "topics_by_first_appearance memories =
     take 10 (first_seen (filter (\<lambda>w. length w > 4) (concat (map msg_tokens memories))))"

section \<open>Properties\<close>

subsection \<open>Auxiliary facts about the router\<close>

lemma score_models_unavailable:
  "\<forall>m \<in> set (map fst cat). m \<notin> set (local_models r) \<and> m \<notin> set (cloud_models r) \<Longrightarrow>
   score_models fmt r a cw sw qw cat st = st"
proof (induction cat)
  case Nil
  then show ?case by simp
next
  case (Cons e cat)
  obtain m info where e: "e = (m, info)" by (cases e)
  obtain bm bs parts where st: "st = (bm, bs, parts)" by (cases st)
  from Cons show ?case by (simp add: e st)
qed

lemma score_models_cong:
  "local_models r1 = local_models r2 \<Longrightarrow> cloud_models r1 = cloud_models r2 \<Longrightarrow>
   score_models fmt r1 a cw sw qw cat st = score_models fmt r2 a cw sw qw cat st"
proof (induction cat arbitrary: st)
  case Nil
  then show ?case by simp
next
  case (Cons e cat)
  obtain m info where e: "e = (m, info)" by (cases e)
  obtain bm bs parts where st: "st = (bm, bs, parts)" by (cases st)
  from Cons show ?case by (simp add: e st Let_def)
qed

lemma analyze_context_irrelevant:
  "analyze_query_complexity q c1 = analyze_query_complexity q c2"
  by (simp add: analyze_query_complexity_def)

text \<open>The whole decision when the loop selects nothing.\<close>

lemma route_query_no_candidate:
  assumes "\<forall>m \<in> set (map fst (model_info r)). m \<notin> set (local_models r) \<and> m \<notin> set (cloud_models r)"
  shows "route_query fmt r q c p =
           \<lparr>model = fallback_model r,
            reasoning = ''Fallback to default model'',
            confidence = - 1,
            estimated_cost =
              (case map_of (model_info r) (fallback_model r) of
                 None \<Rightarrow> 0 | Some i \<Rightarrow> cost_per_token i)
                * real (length (py_split q)),
            estimated_latency =
              (case map_of (model_info r) (fallback_model r) of
                 None \<Rightarrow> 1000 | Some i \<Rightarrow> avg_latency i)\<rparr>"
  unfolding route_query_def score_models_unavailable [OF assms]
  by (simp add: Let_def not_model_def fallback_model_def)


subsection \<open>The complexity analyzer\<close>

text \<open>
  Claim C9. \<^verbatim>\<open>analyze_query_complexity\<close> returns exactly the four signals of the
  specification: the general complexity is the minimum of 1 and the sum of 0.2 (when the
  query has more than 500 characters) and 0.3 (when a reasoning keyword occurs in the
  lower-cased query), and the code, multimodal and math requirements are 0.5, 0.8 and 0.4
  when a keyword of their list occurs in the lower-cased query, and 0 otherwise. The
  result does not depend on the context argument.
\<close>

theorem analyze_query_complexity_refines_spec:
  "analyze_query_complexity q c = analyze_spec q \<and>
   analyze_query_complexity q c = analyze_query_complexity q c'"
  by (simp add: analyze_query_complexity_def analyze_spec_def has_keyword_def list_ex_iff Let_def)

subsection \<open>The fallback of the router\<close>

text \<open>
  Claim C5. If no name of the catalog is in the local or in the cloud list,
  \<^verbatim>\<open>route_query\<close> still returns a decision: its model is the first local model when the
  local list is not empty and \<^verbatim>\<open>gpt-4o-mini\<close> otherwise, and its reasoning is the text
  \<^verbatim>\<open>Fallback to default model\<close>. This holds for every query, context, preferences and
  catalog.
\<close>

theorem route_query_fallback:
  assumes "\<forall>m \<in> set (map fst (model_info r)). m \<notin> set (local_models r) \<and> m \<notin> set (cloud_models r)"
  shows "model (route_query fmt r q c p) =
           (if local_models r \<noteq> [] then hd (local_models r) else ''gpt-4o-mini'') \<and>
         reasoning (route_query fmt r q c p) = ''Fallback to default model''"
  by (simp add: route_query_no_candidate [OF assms] fallback_model_def)

text \<open>
  The theorem at two routers built by \<^verbatim>\<open>__init__\<close>: one with two local models unknown to
  the catalog, one with both lists empty.
\<close>

theorem route_query_fallback_witness:
  "model (route_query (\<lambda>x. ''0.00'')
            (IntelligentRouter_init
               \<lparr>cfg_local_models = Some [''mistral:7b'', ''phi3''], cfg_cloud_models = Some [],
                cfg_cost_threshold = None, cfg_latency_threshold = None,
                cfg_quality_threshold = None\<rparr>)
            ''What is 2+2?'' None None) = ''mistral:7b'' \<and>
   reasoning (route_query (\<lambda>x. ''0.00'')
            (IntelligentRouter_init
               \<lparr>cfg_local_models = Some [''mistral:7b'', ''phi3''], cfg_cloud_models = Some [],
                cfg_cost_threshold = None, cfg_latency_threshold = None,
                cfg_quality_threshold = None\<rparr>)
            ''What is 2+2?'' None None) = ''Fallback to default model'' \<and>
   model (route_query (\<lambda>x. ''0.00'')
            (IntelligentRouter_init
               \<lparr>cfg_local_models = Some [], cfg_cloud_models = Some [],
                cfg_cost_threshold = None, cfg_latency_threshold = None,
                cfg_quality_threshold = None\<rparr>)
            ''What is 2+2?'' None None) = ''gpt-4o-mini''"
proof -
  let ?r1 = "IntelligentRouter_init
               \<lparr>cfg_local_models = Some [''mistral:7b'', ''phi3''], cfg_cloud_models = Some [],
                cfg_cost_threshold = None, cfg_latency_threshold = None,
                cfg_quality_threshold = None\<rparr>"
  let ?r2 = "IntelligentRouter_init
               \<lparr>cfg_local_models = Some [], cfg_cloud_models = Some [],
                cfg_cost_threshold = None, cfg_latency_threshold = None,
                cfg_quality_threshold = None\<rparr>"
  have h1: "\<forall>m \<in> set (map fst (model_info ?r1)). m \<notin> set (local_models ?r1) \<and> m \<notin> set (cloud_models ?r1)"
    by (simp add: IntelligentRouter_init_def builtin_model_info_def)
  have h2: "\<forall>m \<in> set (map fst (model_info ?r2)). m \<notin> set (local_models ?r2) \<and> m \<notin> set (cloud_models ?r2)"
    by (simp add: IntelligentRouter_init_def)
  have l1: "local_models ?r1 = [''mistral:7b'', ''phi3'']" and l2: "local_models ?r2 = []"
    by (simp_all add: IntelligentRouter_init_def)
  show ?thesis
    using route_query_fallback [OF h1, of "\<lambda>x. ''0.00''" "''What is 2+2?''" None None]
          route_query_fallback [OF h2, of "\<lambda>x. ''0.00''" "''What is 2+2?''" None None]
    by (simp add: l1 l2)
qed

text \<open>
  Claim C10. When the loop selects no candidate, the confidence of the decision is the
  initial value \<open>-1\<close> of \<^verbatim>\<open>best_score\<close>; and when the model returned has no entry in
  the catalog, the estimated cost is 0 and the estimated latency is 1000.
\<close>

theorem no_candidate_confidence_and_estimates:
  assumes "\<forall>m \<in> set (map fst (model_info r)). m \<notin> set (local_models r) \<and> m \<notin> set (cloud_models r)"
  shows "confidence (route_query fmt r q c p) = - 1 \<and>
         (model (route_query fmt r q c p) \<notin> set (map fst (model_info r)) \<longrightarrow>
            estimated_cost (route_query fmt r q c p) = 0 \<and>
            estimated_latency (route_query fmt r q c p) = 1000)"
proof -
  have "map_of (model_info r) (fallback_model r) = None"
    if "fallback_model r \<notin> set (map fst (model_info r))"
    using that by (simp add: map_of_eq_None_iff)
  then show ?thesis
    by (simp add: route_query_no_candidate [OF assms])
qed

text \<open>The theorem at a router with the built-in catalog and one unknown local model.\<close>

theorem no_candidate_confidence_and_estimates_witness:
  "confidence (route_query (\<lambda>x. ''0.00'')
            (IntelligentRouter_init
               \<lparr>cfg_local_models = Some [''mistral:7b''], cfg_cloud_models = Some [''claude''],
                cfg_cost_threshold = None, cfg_latency_threshold = None,
                cfg_quality_threshold = None\<rparr>)
            ''Explain the diagram'' None None) = - 1 \<and>
   estimated_cost (route_query (\<lambda>x. ''0.00'')
            (IntelligentRouter_init
               \<lparr>cfg_local_models = Some [''mistral:7b''], cfg_cloud_models = Some [''claude''],
                cfg_cost_threshold = None, cfg_latency_threshold = None,
                cfg_quality_threshold = None\<rparr>)
            ''Explain the diagram'' None None) = 0 \<and>
   estimated_latency (route_query (\<lambda>x. ''0.00'')
            (IntelligentRouter_init
               \<lparr>cfg_local_models = Some [''mistral:7b''], cfg_cloud_models = Some [''claude''],
                cfg_cost_threshold = None, cfg_latency_threshold = None,
                cfg_quality_threshold = None\<rparr>)
            ''Explain the diagram'' None None) = 1000"
proof -
  let ?r = "IntelligentRouter_init
               \<lparr>cfg_local_models = Some [''mistral:7b''], cfg_cloud_models = Some [''claude''],
                cfg_cost_threshold = None, cfg_latency_threshold = None,
                cfg_quality_threshold = None\<rparr>"
  let ?d = "route_query (\<lambda>x. ''0.00'') ?r ''Explain the diagram'' None None"
  have h: "\<forall>m \<in> set (map fst (model_info ?r)). m \<notin> set (local_models ?r) \<and> m \<notin> set (cloud_models ?r)"
    by (simp add: IntelligentRouter_init_def builtin_model_info_def)
  have m: "model ?d = ''mistral:7b''"
    unfolding route_query_no_candidate [OF h]
    by (simp add: fallback_model_def IntelligentRouter_init_def)
  have n: "model ?d \<notin> set (map fst (model_info ?r))"
    unfolding m by (simp add: IntelligentRouter_init_def builtin_model_info_def)
  show ?thesis
    using no_candidate_confidence_and_estimates [OF h, of "\<lambda>x. ''0.00''" "''Explain the diagram''" None None] n
    by blast
qed

subsection \<open>Determinism of the router\<close>

text \<open>
  Claim C6. The decision of \<^verbatim>\<open>route_query\<close> is determined by the catalog, the two
  availability lists, the preferences and the query: two calls that agree on these return
  the same decision, field by field, whatever the context argument and the other
  attributes of the router are. In particular two calls with identical inputs return
  identical decisions.
\<close>

theorem route_query_deterministic:
  assumes "model_info r1 = model_info r2"
    and "local_models r1 = local_models r2"
    and "cloud_models r1 = cloud_models r2"
  shows "route_query fmt r1 q c1 p = route_query fmt r2 q c2 p"
proof -
  have loop: "score_models fmt r1 a cw sw qw cat st = score_models fmt r2 a cw sw qw cat st"
    for a cw sw qw cat st
    by (rule score_models_cong [OF assms(2,3)])
  have an: "analyze_query_complexity q c1 = analyze_query_complexity q c2"
    by (rule analyze_context_irrelevant)
  show ?thesis
    unfolding route_query_def loop an assms(1) assms(2) by (rule refl)
qed

text \<open>
  The theorem at two routers that differ in their thresholds, called with different
  contexts.
\<close>

theorem route_query_deterministic_witness:
  "route_query (\<lambda>x. ''0.00'')
     (IntelligentRouter_init
        \<lparr>cfg_local_models = None, cfg_cloud_models = None, cfg_cost_threshold = None,
         cfg_latency_threshold = None, cfg_quality_threshold = None\<rparr>)
     ''What is 2+2?'' None None =
   route_query (\<lambda>x. ''0.00'')
     (IntelligentRouter_init
        \<lparr>cfg_local_models = None, cfg_cloud_models = None, cfg_cost_threshold = Some 5,
         cfg_latency_threshold = Some 10, cfg_quality_threshold = Some 1\<rparr>)
     ''What is 2+2?'' (Some ''earlier answers'') None"
  by (rule route_query_deterministic) (simp_all add: IntelligentRouter_init_def)

subsection \<open>The score of a model\<close>

text \<open>
  Claim C7 asks that raising the cost weight never lowers the advantage of a free model over
  a paid one of the same latency and quality score. With exact arithmetic the advantage is
  \<open>(1 - cost_score paid) * cost_weight\<close>, which grows with the weight, as the next lemma
  shows. The source computes the scores with IEEE doubles, whose rounding this embedding
  does not model.
\<close>

lemma model_score_advantage_exact:
  assumes "cost_per_token free = 0"
    and "cost_per_token paid > 0"
    and "avg_latency free = avg_latency paid"
    and "quality_score a free = quality_score a paid"
  shows "model_score a free cw sw qw - model_score a paid cw sw qw =
           (1 - cost_score paid) * cw"
    and "cw1 \<le> cw2 \<Longrightarrow>
         model_score a free cw1 sw qw - model_score a paid cw1 sw qw
           \<le> model_score a free cw2 sw qw - model_score a paid cw2 sw qw"
proof -
  have adv: "model_score a free w sw qw - model_score a paid w sw qw = (1 - cost_score paid) * w"
    for w
    using assms by (simp add: model_score_def cost_score_def speed_score_def algebra_simps)
  show "model_score a free cw sw qw - model_score a paid cw sw qw = (1 - cost_score paid) * cw"
    by (rule adv)
  have "cost_score paid \<le> 1" using assms(2) by (simp add: cost_score_def)
  then show "model_score a free cw1 sw qw - model_score a paid cw1 sw qw
           \<le> model_score a free cw2 sw qw - model_score a paid cw2 sw qw" if "cw1 \<le> cw2"
    unfolding adv using that by (simp add: mult_left_mono)
qed

subsection \<open>Auxiliary facts about the memory\<close>

lemma overlap_card: "overlap a b = card (set a \<inter> set b)"
proof -
  have "set (filter (\<lambda>w. w \<in> set b) (remdups a)) = set a \<inter> set b" by auto
  moreover have "distinct (filter (\<lambda>w. w \<in> set b) (remdups a))" by simp
  ultimately show ?thesis
    unfolding overlap_def by (metis distinct_card)
qed

lemma overlap_pos: "overlap a b > 0 \<longleftrightarrow> set a \<inter> set b \<noteq> {}"
  by (simp add: overlap_card card_gt_0_iff)

lemma py_split_empty: "py_split (py_lower []) = []"
  by (simp add: py_split_def py_lower_def)


text \<open>
  For a cap of at least one the scan returns the first \<open>max_items\<close> contents of the selected
  messages, newest first; a message that does not decode is passed over.
\<close>

lemma retrieve_loop_take:
  "1 \<le> n \<Longrightarrow> int (length items) < n \<Longrightarrow>
   retrieve_loop (py_split (py_lower q)) n ms items =
     items @ take (nat n - length items) (map content (filter (selected q) ms))"
proof (induction ms arbitrary: items)
  case Nil
  then show ?case by simp
next
  case (Cons m ms)
  show ?case
  proof (cases "selected q m")
    case True
    then have step: "retrieve_loop (py_split (py_lower q)) n (m # ms) items =
        (if int (length (items @ [content m])) \<ge> n then items @ [content m]
         else retrieve_loop (py_split (py_lower q)) n ms (items @ [content m]))"
      by (auto simp add: selected_def shares_token_def overlap_pos py_split_empty Let_def
               split: content.splits)
    show ?thesis
    proof (cases "int (length (items @ [content m])) \<ge> n")
      case full: True
      with Cons.prems have "nat n - length items = 1" by simp
      with True full step show ?thesis by simp
    next
      case notfull: False
      then have lt: "int (length (items @ [content m])) < n" by simp
      have "nat n - length items = Suc (nat n - length (items @ [content m]))"
        using notfull by simp
      with True notfull step Cons.IH [OF Cons.prems(1) lt] show ?thesis by simp
    qed
  next
    case False
    then have step: "retrieve_loop (py_split (py_lower q)) n (m # ms) items =
        retrieve_loop (py_split (py_lower q)) n ms items"
      using Cons.prems
      by (auto simp add: selected_def shares_token_def overlap_pos py_split_empty Let_def
               split: content.splits)
    with False Cons.IH [OF Cons.prems] show ?thesis by simp
  qed
qed

lemma retrieve_relevant_context_take:
  "1 \<le> n \<Longrightarrow>
   retrieve_relevant_context mm q n =
     take (nat n) (map content (filter (selected q) (rev (memory_bank mm))))"
  using retrieve_loop_take [of n "[]" q "rev (memory_bank mm)"]
  by (simp add: retrieve_relevant_context_def)

lemma summary_loop_cost:
  "snd (summary_loop ms (t, c)) = foldl (+) c (map msg_cost ms)"
  by (induction ms arbitrary: t c) (simp_all add: msg_cost_def Let_def split: content.splits)

lemma create_summary_period: "period (create_summary set_iter ms) = length ms"
  by (simp add: create_summary_def Let_def case_prod_unfold)

lemma create_summary_total_cost:
  "total_cost (create_summary set_iter ms) = foldl (+) 0 (map msg_cost ms)"
  using summary_loop_cost [of ms "[]" 0]
  by (simp add: create_summary_def Let_def case_prod_unfold)

lemma create_summary_main_topics:
  "main_topics (create_summary set_iter ms) = take 10 (set_iter (fst (summary_loop ms ([], 0))))"
  by (simp add: create_summary_def Let_def case_prod_unfold)

lemma set_update_set: "set (set_update t ws) = set t \<union> set ws"
  by (induction ws arbitrary: t) auto

lemma set_update_distinct: "distinct t \<Longrightarrow> distinct (set_update t ws)"
  by (induction ws arbitrary: t) auto

lemma summary_loop_topics_distinct:
  "distinct t \<Longrightarrow> distinct (fst (summary_loop ms (t, c)))"
  by (induction ms arbitrary: t c)
     (simp_all add: Let_def set_update_distinct split: content.splits)

lemma summary_loop_topics_set:
  "set (fst (summary_loop ms (t, c))) =
     set t \<union> {w. length w > 4 \<and> (\<exists>m \<in> set ms. w \<in> set (msg_tokens m))}"
proof (induction ms arbitrary: t c)
  case Nil
  then show ?case by simp
next
  case (Cons m ms)
  show ?case
  proof (cases "content m")
    case (Interaction d)
    then show ?thesis
      by (auto simp add: Cons.IH Let_def set_update_set msg_tokens_def)
  next
    case (Summary s)
    then show ?thesis
      by (auto simp add: Cons.IH Let_def set_update_set msg_tokens_def py_split_empty)
  next
    case Malformed
    then show ?thesis
      by (auto simp add: Cons.IH msg_tokens_def)
  qed
qed

lemma nat_neg_index: "1 \<le> t \<Longrightarrow> nat (int n - t) = n - nat t"
  by arith

lemma slice_from_neg:
  "1 \<le> t \<Longrightarrow> slice_from xs (- t) = drop (length xs - nat t) xs"
  by (simp add: slice_from_def nat_neg_index)

lemma slice_to_neg:
  "1 \<le> t \<Longrightarrow> slice_to xs (- t) = take (length xs - nat t) xs"
  by (simp add: slice_to_def nat_neg_index)

lemma compress_memory_bank:
  assumes "1 \<le> compression_threshold mm"
    and "int (length (memory_bank mm)) > compression_threshold mm"
  shows "memory_bank (compress_memory set_iter mm) =
           \<lparr>content = Summary (create_summary set_iter
                (take (length (memory_bank mm) - nat (compression_threshold mm)) (memory_bank mm))),
            role = ''summary''\<rparr>
           # drop (length (memory_bank mm) - nat (compression_threshold mm)) (memory_bank mm)"
  using assms by (simp add: compress_memory_def Let_def slice_from_neg slice_to_neg)

lemma drop_subset_tl: "1 \<le> k \<Longrightarrow> set (drop k xs) \<subseteq> set (tl xs)"
proof -
  assume "1 \<le> k"
  then obtain j where k: "k = Suc j" by (cases k) auto
  have "drop k xs = drop j (tl xs)" by (simp add: k drop_Suc)
  then show ?thesis by (simp add: set_drop_subset)
qed


text \<open>
  When the extended bank is longer than \<^verbatim>\<open>max_memory_size\<close>, \<^verbatim>\<open>add_interaction\<close>
  returns what \<^verbatim>\<open>_compress_memory\<close> makes of it: compaction is part of the call.
\<close>

lemma add_interaction_compacts:
  assumes "int (length (memory_bank mm)) + 1 > max_memory_size mm"
  shows "add_interaction set_iter mm q r md =
           compress_memory set_iter
             (mm\<lparr>memory_bank := memory_bank mm @
                [\<lparr>content = Interaction
                    \<lparr>query = q, response = r, timestamp = md_timestamp md,
                     model_used = md_model md,
                     cost = (case md_cost md of None \<Rightarrow> 0 | Some c \<Rightarrow> c),
                     latency = (case md_latency md of None \<Rightarrow> 0 | Some l \<Rightarrow> l)\<rparr>,
                  role = ''memory''\<rparr>]\<rparr>)"
  using assms by (simp add: add_interaction_def Let_def)

text \<open>
  With a threshold of at least one, every bank built by \<^verbatim>\<open>add_interaction\<close> holds records
  only, but for its first message, which may be the summary.
\<close>

lemma add_interaction_log_shape:
  assumes "1 \<le> compression_threshold mm"
    and "\<forall>m \<in> set (tl (memory_bank mm)). role m = ''memory''"
  shows "\<forall>m \<in> set (tl (memory_bank (add_interaction set_iter mm q r md))). role m = ''memory''"
proof -
  define new where "new = \<lparr>content = Interaction \<lparr>query = q, response = r, timestamp = md_timestamp md,
          model_used = md_model md, cost = (case md_cost md of None \<Rightarrow> 0 | Some c \<Rightarrow> c),
          latency = (case md_latency md of None \<Rightarrow> 0 | Some l \<Rightarrow> l)\<rparr>, role = ''memory''\<rparr>"
  define mm' where "mm' = mm\<lparr>memory_bank := memory_bank mm @ [new]\<rparr>"
  have add: "add_interaction set_iter mm q r md =
      (if int (length (memory_bank mm')) > max_memory_size mm' then compress_memory set_iter mm' else mm')"
    by (simp add: add_interaction_def mm'_def new_def Let_def)
  have "set (tl (memory_bank mm')) \<subseteq> set (tl (memory_bank mm)) \<union> {new}"
    by (cases "memory_bank mm") (auto simp add: mm'_def)
  with assms(2) have shape: "\<forall>m \<in> set (tl (memory_bank mm')). role m = ''memory''"
    by (auto simp add: new_def)
  have c1: "1 \<le> compression_threshold mm'" using assms(1) by (simp add: mm'_def)
  have "\<forall>m \<in> set (tl (memory_bank (compress_memory set_iter mm'))). role m = ''memory''"
  proof (cases "int (length (memory_bank mm')) > compression_threshold mm'")
    case True
    have k1: "1 \<le> length (memory_bank mm') - nat (compression_threshold mm')"
      using True c1 by linarith
    show ?thesis
      using shape drop_subset_tl [OF k1, of "memory_bank mm'"]
      by (auto simp add: compress_memory_bank [OF c1 True])
  next
    case False
    then show ?thesis using shape by (simp add: compress_memory_def)
  qed
  with shape add show ?thesis by simp
qed


text \<open>
  With a threshold of at least one, the bank is never longer than the larger of
  \<^verbatim>\<open>max_memory_size\<close> and \<^verbatim>\<open>compression_threshold + 1\<close> when \<^verbatim>\<open>add_interaction\<close>
  returns.
\<close>

lemma add_interaction_length_bound:
  assumes "1 \<le> compression_threshold mm"
  shows "int (length (memory_bank (add_interaction set_iter mm q r md)))
           \<le> max (max_memory_size mm) (compression_threshold mm + 1)"
proof -
  define mm' where "mm' = mm\<lparr>memory_bank := memory_bank mm @
     [\<lparr>content = Interaction \<lparr>query = q, response = r, timestamp = md_timestamp md,
          model_used = md_model md, cost = (case md_cost md of None \<Rightarrow> 0 | Some c \<Rightarrow> c),
          latency = (case md_latency md of None \<Rightarrow> 0 | Some l \<Rightarrow> l)\<rparr>, role = ''memory''\<rparr>]\<rparr>"
  have add: "add_interaction set_iter mm q r md =
      (if int (length (memory_bank mm')) > max_memory_size mm' then compress_memory set_iter mm' else mm')"
    by (simp add: add_interaction_def mm'_def Let_def)
  have ct: "compression_threshold mm' = compression_threshold mm"
    and ms: "max_memory_size mm' = max_memory_size mm"
    by (simp_all add: mm'_def)
  show ?thesis
  proof (cases "int (length (memory_bank mm')) > max_memory_size mm'")
    case False
    with add ms show ?thesis by simp
  next
    case True
    show ?thesis
    proof (cases "int (length (memory_bank mm')) > compression_threshold mm'")
      case gt: True
      have c1: "1 \<le> compression_threshold mm'" using assms ct by simp
      have "memory_bank (compress_memory set_iter mm') =
           \<lparr>content = Summary (create_summary set_iter
                (take (length (memory_bank mm') - nat (compression_threshold mm')) (memory_bank mm'))),
            role = ''summary''\<rparr>
           # drop (length (memory_bank mm') - nat (compression_threshold mm')) (memory_bank mm')"
        by (rule compress_memory_bank [OF c1 gt])
      then have "int (length (memory_bank (compress_memory set_iter mm'))) = compression_threshold mm' + 1"
        using gt c1 by simp
      with add True ct show ?thesis by simp
    next
      case le: False
      then have "compress_memory set_iter mm' = mm'" by (simp add: compress_memory_def)
      with add True le ct show ?thesis by simp
    qed
  qed
qed

subsection \<open>Retrieval\<close>

text \<open>
  Claim C1, as the code has it. Let the bank be a summary followed by records, and let
  \<open>max_items\<close> be at least one. If fewer than \<open>max_items\<close> records share a token with the
  query, \<^verbatim>\<open>retrieve_relevant_context\<close> returns the matching records, newest first,
  followed by the content of the summary: the summary is the oldest message and the scan
  runs from the newest, so it comes last, not first. The summary counts toward the cap:
  however many records match, the result has at most \<open>max_items\<close> entries. On a bank
  that holds only a summary every query returns the summary (the case of no record).
\<close>

theorem retrieve_summary_after_matches:
  assumes "1 \<le> max_items"
    and "memory_bank mm = \<lparr>content = c, role = ''summary''\<rparr> # recs"
    and "\<forall>m \<in> set recs. role m \<noteq> ''summary''"
  shows "(int (length (filter (shares_token q) recs)) < max_items \<longrightarrow>
            retrieve_relevant_context mm q max_items =
              map content (filter (shares_token q) (rev recs)) @ [c]) \<and>
         int (length (retrieve_relevant_context mm q max_items)) \<le> max_items"
proof -
  have sel: "filter (selected q) (rev recs) = filter (shares_token q) (rev recs)"
    using assms(3) by (intro filter_cong) (auto simp add: selected_def)
  have len: "length (filter (shares_token q) (rev recs)) = length (filter (shares_token q) recs)"
    by (metis length_rev rev_filter)
  have res: "retrieve_relevant_context mm q max_items =
          take (nat max_items) (map content (filter (shares_token q) (rev recs)) @ [c])"
    by (simp add: retrieve_relevant_context_take [OF assms(1)] assms(2) sel selected_def)
  have cap: "int (length (retrieve_relevant_context mm q max_items)) \<le> max_items"
    unfolding res using assms(1) by simp
  have all: "retrieve_relevant_context mm q max_items =
               map content (filter (shares_token q) (rev recs)) @ [c]"
    if "int (length (filter (shares_token q) recs)) < max_items"
  proof -
    have "length (map content (filter (shares_token q) (rev recs)) @ [c]) \<le> nat max_items"
      using that len by simp
    then show ?thesis unfolding res by simp
  qed
  from all cap show ?thesis by blast
qed

text \<open>
  The theorem at a bank that holds only a summary, with a query that shares no token with
  anything; at a bank with a summary and two records of which one matches; and at the
  same bank with a query that both records match and a cap of one.
\<close>

theorem retrieve_summary_after_matches_witness:
  "retrieve_relevant_context
     \<lparr>memory_bank =
        [\<lparr>content = Summary \<lparr>period = 2, total_cost = 3, main_topics = [''alpha'']\<rparr>,
          role = ''summary''\<rparr>],
      compression_threshold = 10, max_memory_size = 100\<rparr>
     ''nothing in common'' 1 =
   [Summary \<lparr>period = 2, total_cost = 3, main_topics = [''alpha'']\<rparr>] \<and>
   retrieve_relevant_context
     \<lparr>memory_bank =
        [\<lparr>content = Summary \<lparr>period = 2, total_cost = 3, main_topics = [''alpha'']\<rparr>,
          role = ''summary''\<rparr>,
         \<lparr>content = Interaction \<lparr>query = ''hello world'', response = ''hi'', timestamp = None,
                                   model_used = None, cost = 0, latency = 0\<rparr>,
          role = ''memory''\<rparr>,
         \<lparr>content = Interaction \<lparr>query = ''other words'', response = ''ok'', timestamp = None,
                                   model_used = None, cost = 0, latency = 0\<rparr>,
          role = ''memory''\<rparr>],
      compression_threshold = 10, max_memory_size = 100\<rparr>
     ''Hello there'' 3 =
   [Interaction \<lparr>query = ''hello world'', response = ''hi'', timestamp = None,
                  model_used = None, cost = 0, latency = 0\<rparr>,
    Summary \<lparr>period = 2, total_cost = 3, main_topics = [''alpha'']\<rparr>] \<and>
   int (length (retrieve_relevant_context
     \<lparr>memory_bank =
        [\<lparr>content = Summary \<lparr>period = 2, total_cost = 3, main_topics = [''alpha'']\<rparr>,
          role = ''summary''\<rparr>,
         \<lparr>content = Interaction \<lparr>query = ''hello world'', response = ''hi'', timestamp = None,
                                   model_used = None, cost = 0, latency = 0\<rparr>,
          role = ''memory''\<rparr>,
         \<lparr>content = Interaction \<lparr>query = ''other words'', response = ''ok'', timestamp = None,
                                   model_used = None, cost = 0, latency = 0\<rparr>,
          role = ''memory''\<rparr>],
      compression_threshold = 10, max_memory_size = 100\<rparr>
     ''hello words'' 1)) \<le> 1"
proof -
  let ?c = "Summary \<lparr>period = 2, total_cost = 3, main_topics = [''alpha'']\<rparr>"
  let ?r1 = "\<lparr>content = Interaction \<lparr>query = ''hello world'', response = ''hi'', timestamp = None,
                                   model_used = None, cost = 0, latency = 0\<rparr>,
          role = ''memory''\<rparr>"
  let ?r2 = "\<lparr>content = Interaction \<lparr>query = ''other words'', response = ''ok'', timestamp = None,
                                   model_used = None, cost = 0, latency = 0\<rparr>,
          role = ''memory''\<rparr>"
  let ?mm1 = "\<lparr>memory_bank = [\<lparr>content = ?c, role = ''summary''\<rparr>],
      compression_threshold = 10, max_memory_size = 100\<rparr>"
  let ?mm2 = "\<lparr>memory_bank = [\<lparr>content = ?c, role = ''summary''\<rparr>, ?r1, ?r2],
      compression_threshold = 10, max_memory_size = 100\<rparr>"
  have a: "retrieve_relevant_context ?mm1 ''nothing in common'' 1 =
             map content (filter (shares_token ''nothing in common'') (rev [])) @ [?c]"
    using retrieve_summary_after_matches [of 1 ?mm1 ?c "[]" "''nothing in common''"] by simp
  have s1: "shares_token ''Hello there'' ?r1" by code_simp
  have s2: "\<not> shares_token ''Hello there'' ?r2" by code_simp
  have f: "filter (shares_token ''Hello there'') [?r1, ?r2] = [?r1]"
    using s1 s2 by simp
  have f': "filter (shares_token ''Hello there'') (rev [?r1, ?r2]) = [?r1]"
    using s1 s2 by simp
  have h3: "\<forall>m \<in> set [?r1, ?r2]. role m \<noteq> ''summary''" by simp
  have h4: "int (length (filter (shares_token ''Hello there'') [?r1, ?r2])) < 3"
    unfolding f by simp
  have b: "retrieve_relevant_context ?mm2 ''Hello there'' 3 =
             map content (filter (shares_token ''Hello there'') (rev [?r1, ?r2])) @ [?c]"
    using retrieve_summary_after_matches [of 3 ?mm2 ?c "[?r1, ?r2]" "''Hello there''", OF _ _ h3] h4
    by simp
  have d: "int (length (retrieve_relevant_context ?mm2 ''hello words'' 1)) \<le> 1"
    using retrieve_summary_after_matches [of 1 ?mm2 ?c "[?r1, ?r2]" "''hello words''", OF _ _ h3]
    by simp
  show ?thesis
    unfolding a b f' using d by simp
qed

text \<open>
  Claim C1 as stated fails: on a bank with a summary and one matching record the summary
  is returned after the record, not ahead of it.
\<close>

theorem retrieve_summary_first_counterexample:
  "retrieve_relevant_context
     \<lparr>memory_bank =
        [\<lparr>content = Summary \<lparr>period = 2, total_cost = 3, main_topics = [''alpha'']\<rparr>,
          role = ''summary''\<rparr>,
         \<lparr>content = Interaction \<lparr>query = ''hello world'', response = ''hi'', timestamp = None,
                                   model_used = None, cost = 0, latency = 0\<rparr>,
          role = ''memory''\<rparr>],
      compression_threshold = 10, max_memory_size = 100\<rparr>
     ''Hello'' 5 =
   [Interaction \<lparr>query = ''hello world'', response = ''hi'', timestamp = None,
                  model_used = None, cost = 0, latency = 0\<rparr>,
    Summary \<lparr>period = 2, total_cost = 3, main_topics = [''alpha'']\<rparr>]"
  by code_simp


text \<open>
  Claim C8 says that at most \<open>max_items\<close> entries are returned for every \<open>max_items\<close>. The
  loop tests the cap only after it has handled a message, so with \<open>max_items = 0\<close> a bank
  whose newest record matches the query yields one entry.
\<close>

theorem retrieve_zero_max_items_returns_entry:
  "retrieve_relevant_context
     \<lparr>memory_bank =
        [\<lparr>content = Interaction \<lparr>query = ''hello world'', response = ''hi'', timestamp = None,
                                   model_used = None, cost = 0, latency = 0\<rparr>,
          role = ''memory''\<rparr>],
      compression_threshold = 10, max_memory_size = 100\<rparr>
     ''hello'' 0 =
   [Interaction \<lparr>query = ''hello world'', response = ''hi'', timestamp = None,
                  model_used = None, cost = 0, latency = 0\<rparr>]"
  by code_simp


subsection \<open>Compaction\<close>

text \<open>
  What \<^verbatim>\<open>_compress_memory\<close> computes. Let the threshold be at least one and the bank
  longer than the threshold, and let \<open>k\<close> be the length of the bank minus the threshold.
  The bank is rebuilt as one new summary followed by the last \<open>compression_threshold\<close>
  messages, which are records when all messages after the first are. The \<open>period\<close> of
  the summary is the number \<open>k\<close> of folded messages and its \<open>total_cost\<close> is the sum, in
  order, of what \<open>msg_cost\<close> gives for them.
\<close>

lemma compress_memory_result:
  assumes "1 \<le> compression_threshold mm"
    and "int (length (memory_bank mm)) > compression_threshold mm"
    and "k = length (memory_bank mm) - nat (compression_threshold mm)"
    and "s = create_summary set_iter (take k (memory_bank mm))"
  shows "memory_bank (compress_memory set_iter mm) =
           \<lparr>content = Summary s, role = ''summary''\<rparr> # drop k (memory_bank mm) \<and>
         period s = length (take k (memory_bank mm)) \<and>
         total_cost s = foldl (+) 0 (map msg_cost (take k (memory_bank mm))) \<and>
         int (length (drop k (memory_bank mm))) = compression_threshold mm \<and>
         ((\<forall>m \<in> set (tl (memory_bank mm)). role m = ''memory'') \<longrightarrow>
          (\<forall>m \<in> set (drop k (memory_bank mm)). role m = ''memory''))"
proof -
  have k1: "1 \<le> k" using assms(1,2,3) by linarith
  have sub: "set (drop k (memory_bank mm)) \<subseteq> set (tl (memory_bank mm))"
    by (rule drop_subset_tl [OF k1])
  have len: "int (length (drop k (memory_bank mm))) = compression_threshold mm"
    using assms(1,2,3) by simp
  have bank: "memory_bank (compress_memory set_iter mm) =
           \<lparr>content = Summary s, role = ''summary''\<rparr> # drop k (memory_bank mm)"
    using compress_memory_bank [OF assms(1,2), of set_iter] assms(3,4) by simp
  have per: "period s = length (take k (memory_bank mm))"
    unfolding assms(4) by (rule create_summary_period)
  have tot: "total_cost s = foldl (+) 0 (map msg_cost (take k (memory_bank mm)))"
    unfolding assms(4) by (rule create_summary_total_cost)
  from sub have raw: "(\<forall>m \<in> set (tl (memory_bank mm)). role m = ''memory'') \<longrightarrow>
          (\<forall>m \<in> set (drop k (memory_bank mm)). role m = ''memory'')" by blast
  from bank per tot len raw show ?thesis by blast
qed


text \<open>
  Claim C2 says that the new summary counts the folded records and sums their costs, the
  cost folded into an earlier summary included. With threshold 1 and \<^verbatim>\<open>max_memory_size\<close>
  2, four interactions of costs 1, 2, 4 and 8 are added. The third call compacts the first
  two records into a summary of period 2 and cost 3. The fourth call folds that summary
  and the third record: one record is folded, three have been folded in all, and their
  costs sum to 7. The code writes period 2 and cost 4: \<^verbatim>\<open>len(memories)\<close> counts the
  earlier summary as an interaction, and \<^verbatim>\<open>data.get('cost', 0)\<close> finds no \<^verbatim>\<open>cost\<close>
  key in it, so its \<^verbatim>\<open>total_cost\<close> is lost.
\<close>

theorem second_compaction_loses_earlier_total:
  "memory_bank
     (add_interaction id
        (add_interaction id
           (add_interaction id
              (MemoryManager_init
                 \<lparr>cfg_compression_threshold = Some 1, cfg_max_memory_size = Some 2\<rparr>)
              ''q1'' ''r1''
              \<lparr>md_timestamp = None, md_model = None, md_cost = Some 1, md_latency = None\<rparr>)
           ''q2'' ''r2''
           \<lparr>md_timestamp = None, md_model = None, md_cost = Some 2, md_latency = None\<rparr>)
        ''q3'' ''r3''
        \<lparr>md_timestamp = None, md_model = None, md_cost = Some 4, md_latency = None\<rparr>)
   = [\<lparr>content = Summary \<lparr>period = 2, total_cost = 3, main_topics = []\<rparr>, role = ''summary''\<rparr>,
      \<lparr>content = Interaction \<lparr>query = ''q3'', response = ''r3'', timestamp = None,
                                model_used = None, cost = 4, latency = 0\<rparr>,
       role = ''memory''\<rparr>] \<and>
   memory_bank
     (add_interaction id
        (add_interaction id
           (add_interaction id
              (add_interaction id
                 (MemoryManager_init
                    \<lparr>cfg_compression_threshold = Some 1, cfg_max_memory_size = Some 2\<rparr>)
                 ''q1'' ''r1''
                 \<lparr>md_timestamp = None, md_model = None, md_cost = Some 1, md_latency = None\<rparr>)
              ''q2'' ''r2''
              \<lparr>md_timestamp = None, md_model = None, md_cost = Some 2, md_latency = None\<rparr>)
           ''q3'' ''r3''
           \<lparr>md_timestamp = None, md_model = None, md_cost = Some 4, md_latency = None\<rparr>)
        ''q4'' ''r4''
        \<lparr>md_timestamp = None, md_model = None, md_cost = Some 8, md_latency = None\<rparr>)
   = [\<lparr>content = Summary \<lparr>period = 2, total_cost = 4, main_topics = []\<rparr>, role = ''summary''\<rparr>,
      \<lparr>content = Interaction \<lparr>query = ''q4'', response = ''r4'', timestamp = None,
                                model_used = None, cost = 8, latency = 0\<rparr>,
       role = ''memory''\<rparr>]"
  by code_simp


text \<open>
  Claim C3 bounds the length of the bank after \<^verbatim>\<open>add_interaction\<close> by the larger of
  \<^verbatim>\<open>max_memory_size\<close> and \<^verbatim>\<open>compression_threshold + 1\<close>, for every configuration. With
  both set to 0 the slice \<^verbatim>\<open>memory[-0:]\<close> is the whole bank: the first interaction
  leaves a bank of two messages, an empty summary and the record, while the bound is 1.
\<close>

theorem add_interaction_zero_threshold_grows:
  "int (length (memory_bank
     (add_interaction id
        (MemoryManager_init \<lparr>cfg_compression_threshold = Some 0, cfg_max_memory_size = Some 0\<rparr>)
        ''hello'' ''hi''
        \<lparr>md_timestamp = None, md_model = None, md_cost = None, md_latency = None\<rparr>))) = 2 \<and>
   max (max_memory_size
          (MemoryManager_init \<lparr>cfg_compression_threshold = Some 0, cfg_max_memory_size = Some 0\<rparr>))
       (compression_threshold
          (MemoryManager_init \<lparr>cfg_compression_threshold = Some 0, cfg_max_memory_size = Some 0\<rparr>)
        + 1) = 1"
  by code_simp


text \<open>
  Claim C4, as the code has it. Whatever order the set of topics is listed in, the
  \<open>main_topics\<close> of a summary are at most ten distinct tokens, each longer than four
  characters and each a token of the lower-cased query of a folded record; when at most
  ten tokens qualify, all of them are listed. The order is that of the set, not that of
  first appearance.
\<close>

theorem main_topics_distinct_long_tokens:
  assumes "valid_set_iter set_iter"
  shows "distinct (main_topics (create_summary set_iter memories)) \<and>
         length (main_topics (create_summary set_iter memories)) \<le> 10 \<and>
         (\<forall>t \<in> set (main_topics (create_summary set_iter memories)).
            length t > 4 \<and> (\<exists>m \<in> set memories. t \<in> set (msg_tokens m))) \<and>
         (card {w. length w > 4 \<and> (\<exists>m \<in> set memories. w \<in> set (msg_tokens m))} \<le> 10 \<longrightarrow>
            set (main_topics (create_summary set_iter memories)) =
              {w. length w > 4 \<and> (\<exists>m \<in> set memories. w \<in> set (msg_tokens m))})"
proof -
  let ?topics = "fst (summary_loop memories ([], 0))"
  let ?Q = "{w. length w > 4 \<and> (\<exists>m \<in> set memories. w \<in> set (msg_tokens m))}"
  have d: "distinct ?topics" by (rule summary_loop_topics_distinct) simp
  have s: "set ?topics = ?Q" by (simp add: summary_loop_topics_set)
  from assms d have d': "distinct (set_iter ?topics)" and s': "set (set_iter ?topics) = ?Q"
    using s by (auto simp add: valid_set_iter_def)
  have mt: "main_topics (create_summary set_iter memories) = take 10 (set_iter ?topics)"
    by (rule create_summary_main_topics)
  have 1: "distinct (take 10 (set_iter ?topics))" using d' by simp
  have 2: "length (take 10 (set_iter ?topics)) \<le> 10" by simp
  have 3: "set (take 10 (set_iter ?topics)) \<subseteq> ?Q" using s' set_take_subset by fastforce
  have 4: "set (take 10 (set_iter ?topics)) = ?Q" if "card ?Q \<le> 10"
  proof -
    have "length (set_iter ?topics) = card ?Q" using d' s' distinct_card by fastforce
    with that have "take 10 (set_iter ?topics) = set_iter ?topics" by simp
    with s' show ?thesis by simp
  qed
  show ?thesis
    unfolding mt using 1 2 3 4 by blast
qed


text \<open>The theorem at one record whose query repeats a token, with the reversed order.\<close>

theorem main_topics_distinct_long_tokens_witness:
  "distinct (main_topics (create_summary rev
      [\<lparr>content = Interaction \<lparr>query = ''Alpha bravo alpha the'', response = ''ok'',
           timestamp = None, model_used = None, cost = 1, latency = 0\<rparr>, role = ''memory''\<rparr>])) \<and>
   set (main_topics (create_summary rev
      [\<lparr>content = Interaction \<lparr>query = ''Alpha bravo alpha the'', response = ''ok'',
           timestamp = None, model_used = None, cost = 1, latency = 0\<rparr>, role = ''memory''\<rparr>]))
     = {''alpha'', ''bravo''}"
proof -
  let ?m = "\<lparr>content = Interaction \<lparr>query = ''Alpha bravo alpha the'', response = ''ok'',
           timestamp = None, model_used = None, cost = 1, latency = 0\<rparr>, role = ''memory''\<rparr>"
  have v: "valid_set_iter rev" by (simp add: valid_set_iter_def)
  have t: "msg_tokens ?m = [''alpha'', ''bravo'', ''alpha'', ''the'']" by code_simp
  have q: "{w. length w > 4 \<and> (\<exists>m \<in> set [?m]. w \<in> set (msg_tokens m))} = {''alpha'', ''bravo''}"
    unfolding list.set bex_simps t by auto
  have c: "card {w. length w > 4 \<and> (\<exists>m \<in> set [?m]. w \<in> set (msg_tokens m))} \<le> 10"
    unfolding q by simp
  from main_topics_distinct_long_tokens [OF v, of "[?m]"] c show ?thesis
    unfolding q by blast
qed


text \<open>
  Claim C4 as stated fails: \<^verbatim>\<open>list(topics)\<close> lists a Python set, and an order of the set
  other than the order of insertion (here the reverse) gives topics that are not in the
  order of first appearance.
\<close>

theorem main_topics_order_counterexample:
  "valid_set_iter rev \<and>
   main_topics (create_summary rev
      [\<lparr>content = Interaction \<lparr>query = ''alpha bravo'', response = ''ok'',
           timestamp = None, model_used = None, cost = 1, latency = 0\<rparr>, role = ''memory''\<rparr>])
     = [''bravo'', ''alpha''] \<and>
   topics_by_first_appearance
      [\<lparr>content = Interaction \<lparr>query = ''alpha bravo'', response = ''ok'',
           timestamp = None, model_used = None, cost = 1, latency = 0\<rparr>, role = ''memory''\<rparr>]
     = [''alpha'', ''bravo'']"
proof -
  have "valid_set_iter rev" by (simp add: valid_set_iter_def)
  moreover have "main_topics (create_summary rev
      [\<lparr>content = Interaction \<lparr>query = ''alpha bravo'', response = ''ok'',
           timestamp = None, model_used = None, cost = 1, latency = 0\<rparr>, role = ''memory''\<rparr>])
     = [''bravo'', ''alpha'']" by code_simp
  moreover have "topics_by_first_appearance
      [\<lparr>content = Interaction \<lparr>query = ''alpha bravo'', response = ''ok'',
           timestamp = None, model_used = None, cost = 1, latency = 0\<rparr>, role = ''memory''\<rparr>]
     = [''alpha'', ''bravo'']" by code_simp
  ultimately show ?thesis by blast
qed

end
